theory Spec2Isabelle
  imports Complex_Main
begin

section \<open>Common Python values\<close>

text \<open>
  Both notebooks print and pass Python floats. They are modelled as exact rationals:
  every property below is about which quantities are read, combined and passed on,
  not about rounding.
\<close>

datatype py_error =
  KeyError | ValueError | ZeroDivisionError | NameError | TraitError | ApplicationError
  | RuntimeError

definition bind_err :: "py_error + 'a \<Rightarrow> ('a \<Rightarrow> py_error + 'b) \<Rightarrow> py_error + 'b" where
  "bind_err r f = (case r of Inl e \<Rightarrow> Inl e | Inr x \<Rightarrow> f x)"

section \<open>The integrated desalination notebook\<close>

subsection \<open>The solved model object, as far as the notebook reads it\<close>

type_synonym site = string
type_synonym period = string

text \<open>
  \<open>m.m_network\<close>: six scalar cost variables (a variable holds a value or \<open>None\<close>),
  the parameter \<open>p_dt\<close> and the two sets the cell iterates over, in their order.
\<close>

record network =
  arc_cost :: "rat option"
  disp_cost :: "rat option"
  fresh_cost :: "rat option"
  stor_cost :: "rat option"
  stor_rev :: "rat option"
  treat_rev :: "rat option"
  p_dt :: rat
  s_T :: "period list"
  desalination_nodes :: "site list"

text \<open>
  \<open>m\<close>: the network block and the two indexed variables \<open>m.OPEX[s, t]\<close>,
  \<open>m.CAPEX[s]\<close>. An index outside the variable's index set is \<open>None\<close> (a KeyError
  on lookup); an index without a value is \<open>Some None\<close>.
\<close>

record model =
  m_network :: network
  OPEX :: "(site \<times> period) \<rightharpoonup> rat option"
  CAPEX :: "site \<rightharpoonup> rat option"

subsection \<open>Expressions and \<open>pyo.value\<close>\<close>

text \<open>
  Arithmetic on model components builds an expression first; \<open>pyo.value\<close> then
  evaluates it and raises ValueError at a variable without a value.
\<close>

datatype expr =
  Num rat
  | Var "rat option"
  | Add expr expr
  | Mul expr expr
  | Div expr expr

fun pyo_value :: "expr \<Rightarrow> py_error + rat" where
  "pyo_value (Num c) = Inr c"
| "pyo_value (Var None) = Inl ValueError"
| "pyo_value (Var (Some v)) = Inr v"
| "pyo_value (Add a b) =
     bind_err (pyo_value a) (\<lambda>x. bind_err (pyo_value b) (\<lambda>y. Inr (x + y)))"
| "pyo_value (Mul a b) =
     bind_err (pyo_value a) (\<lambda>x. bind_err (pyo_value b) (\<lambda>y. Inr (x * y)))"
| "pyo_value (Div a b) =
     bind_err (pyo_value a) (\<lambda>x. bind_err (pyo_value b) (\<lambda>y.
       if y = 0 then Inl ZeroDivisionError else Inr (x / y)))"

definition getitem :: "('k \<rightharpoonup> rat option) \<Rightarrow> 'k \<Rightarrow> py_error + expr" where
  "getitem v k = (case v k of None \<Rightarrow> Inl KeyError | Some x \<Rightarrow> Inr (Var x))"

text \<open>
  Python's \<open>sum(f(x) for x in xs)\<close>: the accumulator starts at 0 and the terms are added
  from the left, each one built when the generator reaches it.
\<close>

fun sum_from :: "expr \<Rightarrow> ('a \<Rightarrow> py_error + expr) \<Rightarrow> 'a list \<Rightarrow> py_error + expr" where
  "sum_from acc f [] = Inr acc"
| "sum_from acc f (x # xs) = bind_err (f x) (\<lambda>y. sum_from (Add acc y) f xs)"

definition py_sum :: "('a \<Rightarrow> py_error + expr) \<Rightarrow> 'a list \<Rightarrow> py_error + expr" where
  "py_sum f xs = sum_from (Num 0) f xs"

subsection \<open>The quantities of the results cell\<close>

definition opex_term :: "model \<Rightarrow> site \<Rightarrow> period \<Rightarrow> py_error + expr" where
  "opex_term m s t =
     bind_err (getitem (OPEX m) (s, t)) (\<lambda>v.
       Inr (Mul (Div v (Num 365)) (Num (p_dt (m_network m)))))"

definition opex_expr :: "model \<Rightarrow> py_error + expr" where
  "opex_expr m =
     py_sum (\<lambda>s. py_sum (\<lambda>t. opex_term m s t) (s_T (m_network m)))
       (desalination_nodes (m_network m))"

definition treatment_opex :: "model \<Rightarrow> py_error + rat" where
  "treatment_opex m =
     bind_err (opex_expr m) (\<lambda>e. bind_err (pyo_value e) (\<lambda>v. Inr (1000 * v)))"

definition capex_expr :: "model \<Rightarrow> py_error + expr" where
  "capex_expr m =
     bind_err (py_sum (\<lambda>s. getitem (CAPEX m) s) (desalination_nodes (m_network m))) (\<lambda>c.
       Inr (Mul (Mul (Div c (Num 365)) (Num (p_dt (m_network m))))
                (Num (of_nat (length (s_T (m_network m)))))))"

definition treatment_capex :: "model \<Rightarrow> py_error + rat" where
  "treatment_capex m =
     bind_err (capex_expr m) (\<lambda>e. bind_err (pyo_value e) (\<lambda>v. Inr (1000 * v)))"

subsection \<open>The kernel: names bound by the cells, printed output, solver calls\<close>

datatype line = Text string | Number rat

datatype status = Optimal | FeasibleSuboptimal | Infeasible | SolverError | IterationLimit

record solver_obj =
  solver_name :: string
  options :: "(string \<times> rat) list"

record invocation =
  inv_solver :: string
  inv_options :: "(string \<times> rat) list"
  inv_tee :: bool
  inv_model :: model

text \<open>
  \<open>var_m\<close> is the notebook's \<open>m\<close>, \<open>var_ipopt\<close> its \<open>ipopt\<close>; \<open>last_result\<close> is
  the status the most recent run of the solver ended with; \<open>solver_calls\<close> lists the
  runs of the external solver that were started, in order.
\<close>

record kernel =
  var_m :: model
  var_ipopt :: "solver_obj option"
  stdout :: "line list"
  last_result :: "status option"
  solver_calls :: "invocation list"

subsection \<open>The solve cell\<close>

text \<open>
  The nonlinear solver is an external program. What a run of it ends with: a status,
  the values it stopped at (as a model) and the log it wrote.
\<close>

record solver_results =
  rs_status :: status
  rs_solution :: model
  rs_log :: "string list"

text \<open>
  The environment of the kernel: \<open>executable n\<close> says whether a program for the
  solver named \<open>n\<close> is installed; \<open>process i n opts m\<close> is what run number \<open>i\<close> of it
  (counted from 0 over the session) ends with when started with the options \<open>opts\<close> on
  the model \<open>m\<close>. The answer may depend on the run: a solver need not end the same way
  twice. A run is the only way to an answer.
\<close>

record environment =
  executable :: "string \<Rightarrow> bool"
  process :: "nat \<Rightarrow> string \<Rightarrow> (string \<times> rat) list \<Rightarrow> model \<Rightarrow> solver_results"

fun dict_set :: "(string \<times> rat) list \<Rightarrow> string \<Rightarrow> rat \<Rightarrow> (string \<times> rat) list" where
  "dict_set [] k v = [(k, v)]"
| "dict_set ((k', v') # d) k v = (if k' = k then (k, v) # d else (k', v') # dict_set d k v)"

definition SolverFactory :: "string \<Rightarrow> solver_obj" where
  "SolverFactory n = \<lparr>solver_name = n, options = []\<rparr>"

definition set_option :: "solver_obj \<Rightarrow> string \<Rightarrow> rat \<Rightarrow> solver_obj" where
  "set_option sv k v = sv\<lparr>options := dict_set (options sv) k v\<rparr>"

text \<open>
  Starting the solver: the next run of the session, on the kernel's \<open>m\<close> with the
  solver object's options. The run is entered in \<open>solver_calls\<close>, and its number is
  the number of runs started before it; with \<open>tee\<close> its log is printed.
\<close>

definition launch :: "environment \<Rightarrow> solver_obj \<Rightarrow> bool \<Rightarrow> kernel \<Rightarrow> kernel \<times> solver_results" where
  "launch env sv tee k =
     (let r = process env (length (solver_calls k)) (solver_name sv) (options sv) (var_m k)
      in (k\<lparr>solver_calls := solver_calls k @
               [\<lparr>inv_solver = solver_name sv, inv_options = options sv,
                 inv_tee = tee, inv_model = var_m k\<rparr>],
             stdout := stdout k @ (if tee then map Text (rs_log r) else [])\<rparr>,
          r))"

text \<open>
  \<open>sv.solve(m, tee=...)\<close>. Without an executable it raises ApplicationError before
  any run is started. Otherwise it starts one run. A run that ended with a solver error
  has no solution to load: ValueError is raised and \<open>m\<close> keeps the values it had. After
  any other status (Infeasible and IterationLimit included) the values the solver
  stopped at are loaded into \<open>m\<close>.
\<close>

definition solve :: "environment \<Rightarrow> solver_obj \<Rightarrow> bool \<Rightarrow> kernel \<Rightarrow> kernel \<times> py_error option" where
  "solve env sv tee k =
     (if \<not> executable env (solver_name sv) then (k, Some ApplicationError)
      else case launch env sv tee k of
        (k', r) \<Rightarrow>
          if rs_status r = SolverError
          then (k'\<lparr>last_result := Some SolverError\<rparr>, Some ValueError)
          else (k'\<lparr>var_m := rs_solution r, last_result := Some (rs_status r)\<rparr>, None))"

definition solve_cell :: "environment \<Rightarrow> kernel \<Rightarrow> kernel \<times> py_error option" where
  "solve_cell env k =
     (let ipopt = SolverFactory ''ipopt'';
          ipopt = set_option ipopt ''mu_init'' (1 / 1000000);
          ipopt = set_option ipopt ''bound_push'' (1 / 1000000)
      in solve env ipopt True (k\<lparr>var_ipopt := Some ipopt\<rparr>))"

subsection \<open>The results cell\<close>

datatype stmt = Print_text string | Print_value "model \<Rightarrow> py_error + rat"

text \<open>
  A cell runs its statements in order; a raised exception ends it, and what was printed
  before stays printed.
\<close>

fun exec :: "stmt list \<Rightarrow> kernel \<Rightarrow> kernel \<times> py_error option" where
  "exec [] k = (k, None)"
| "exec (Print_text s # ss) k = exec ss (k\<lparr>stdout := stdout k @ [Text s]\<rparr>)"
| "exec (Print_value f # ss) k =
     (case f (var_m k) of
        Inl e \<Rightarrow> (k, Some e)
      | Inr v \<Rightarrow> exec ss (k\<lparr>stdout := stdout k @ [Number v]\<rparr>))"

definition rule_line :: string where
  "rule_line = ''=================================================================''"

definition results_cell :: "stmt list" where
  "results_cell =
     [Print_text rule_line,
      Print_text ''#########            Costing Variables (USD)        #############'',
      Print_text rule_line,
      Print_text ''Piping cost'',
      Print_value (\<lambda>m. pyo_value (Var (arc_cost (m_network m)))),
      Print_text rule_line,
      Print_text ''Disposal cost'',
      Print_value (\<lambda>m. pyo_value (Var (disp_cost (m_network m)))),
      Print_text rule_line,
      Print_text ''Fresh water cost'',
      Print_value (\<lambda>m. pyo_value (Var (fresh_cost (m_network m)))),
      Print_text rule_line,
      Print_text ''Storage Cost'',
      Print_value (\<lambda>m. pyo_value (Var (stor_cost (m_network m)))),
      Print_text rule_line,
      Print_text ''Storage reward'',
      Print_value (\<lambda>m. pyo_value (Var (stor_rev (m_network m)))),
      Print_text rule_line,
      Print_text ''Treatment reward'',
      Print_value (\<lambda>m. pyo_value (Var (treat_rev (m_network m)))),
      Print_text rule_line,
      Print_text ''Treatment cost - OPEX'',
      Print_value treatment_opex,
      Print_text ''Treatment cost - CAPEX'',
      Print_value treatment_capex,
      Print_text rule_line]"

text \<open>
  The report the cell produces: every printed number under the label printed just
  before it.
\<close>

fun report_of :: "line list \<Rightarrow> (string \<times> rat) list" where
  "report_of (Text l # Number v # rest) = (l, v) # report_of rest"
| "report_of (x # rest) = report_of rest"
| "report_of [] = []"

definition extract_results :: "kernel \<Rightarrow> (py_error + (string \<times> rat) list) \<times> kernel" where
  "extract_results k =
     (case exec results_cell k of
        (k', Some e) \<Rightarrow> (Inl e, k')
      | (k', None) \<Rightarrow> (Inr (report_of (drop (length (stdout k)) (stdout k'))), k'))"

subsection \<open>Loaded values\<close>

text \<open>
  A solve that succeeds loads a value into every variable. \<open>values_loaded\<close> says so
  for the variables the results cell reads: the six scalar costs, \<open>OPEX[s, t]\<close> for
  every desalination node and period, \<open>CAPEX[s]\<close> for every desalination node.
\<close>

definition has_value :: "('k \<rightharpoonup> rat option) \<Rightarrow> 'k \<Rightarrow> bool" where
  "has_value v k = (case v k of Some (Some x) \<Rightarrow> True | _ \<Rightarrow> False)"

definition val_at :: "('k \<rightharpoonup> rat option) \<Rightarrow> 'k \<Rightarrow> rat" where
  "val_at v k = (case v k of Some (Some x) \<Rightarrow> x | _ \<Rightarrow> 0)"

definition scalars_loaded :: "network \<Rightarrow> bool" where
  "scalars_loaded n =
     (arc_cost n \<noteq> None \<and> disp_cost n \<noteq> None \<and> fresh_cost n \<noteq> None \<and>
      stor_cost n \<noteq> None \<and> stor_rev n \<noteq> None \<and> treat_rev n \<noteq> None)"

definition values_loaded :: "model \<Rightarrow> bool" where
  "values_loaded m =
     (scalars_loaded (m_network m) \<and>
      list_all (\<lambda>s. list_all (\<lambda>t. has_value (OPEX m) (s, t)) (s_T (m_network m)))
        (desalination_nodes (m_network m)) \<and>
      list_all (has_value (CAPEX m)) (desalination_nodes (m_network m)))"

text \<open>
  What a cell prints and how it ends, as a function of the model alone
  (\<open>exec_printed\<close> below: \<open>exec\<close> appends exactly this to the output).
\<close>

fun printed :: "stmt list \<Rightarrow> model \<Rightarrow> line list \<times> py_error option" where
  "printed [] m = ([], None)"
| "printed (Print_text s # ss) m = (case printed ss m of (out, r) \<Rightarrow> (Text s # out, r))"
| "printed (Print_value f # ss) m =
     (case f m of
        Inl e \<Rightarrow> ([], Some e)
      | Inr v \<Rightarrow> (case printed ss m of (out, r) \<Rightarrow> (Number v # out, r)))"

subsection \<open>A small solved instance\<close>

text \<open>
  One desalination node, two periods. \<open>demo_model\<close> has every value loaded,
  \<open>fresh_model\<close> is the same model with no value yet. Three environments with an
  \<open>ipopt\<close> executable: one whose runs end Optimal at the values of \<open>demo_model\<close>, one
  whose runs end Infeasible at the values they were started with, one whose runs end
  with a solver error.
\<close>

definition demo_network :: network where
  "demo_network =
     \<lparr>arc_cost = Some 120, disp_cost = Some 30, fresh_cost = Some 0, stor_cost = Some 5,
      stor_rev = Some 2, treat_rev = Some 40, p_dt = 7, s_T = [''T01'', ''T02''],
      desalination_nodes = [''R01_IN'']\<rparr>"

definition demo_model :: model where
  "demo_model =
     \<lparr>m_network = demo_network,
      OPEX = [(''R01_IN'', ''T01'') \<mapsto> Some 73, (''R01_IN'', ''T02'') \<mapsto> Some 146],
      CAPEX = [''R01_IN'' \<mapsto> Some 365]\<rparr>"

definition demo_kernel :: kernel where
  "demo_kernel =
     \<lparr>var_m = demo_model, var_ipopt = None, stdout = [], last_result = None,
      solver_calls = []\<rparr>"

definition fresh_model :: model where
  "fresh_model =
     \<lparr>m_network =
        \<lparr>arc_cost = None, disp_cost = None, fresh_cost = None, stor_cost = None,
         stor_rev = None, treat_rev = None, p_dt = 7, s_T = [''T01'', ''T02''],
         desalination_nodes = [''R01_IN'']\<rparr>,
      OPEX = [(''R01_IN'', ''T01'') \<mapsto> None, (''R01_IN'', ''T02'') \<mapsto> None],
      CAPEX = [''R01_IN'' \<mapsto> None]\<rparr>"

definition fresh_kernel :: kernel where
  "fresh_kernel =
     \<lparr>var_m = fresh_model, var_ipopt = None, stdout = [], last_result = None,
      solver_calls = []\<rparr>"

definition optimal_env :: environment where
  "optimal_env =
     \<lparr>executable = (\<lambda>n. n = ''ipopt''),
      process = (\<lambda>i n opts m.
        \<lparr>rs_status = Optimal, rs_solution = demo_model, rs_log = [''EXIT: Optimal'']\<rparr>)\<rparr>"



section \<open>The membrane distillation notebook\<close>

subsection \<open>Widgets\<close>

record slider =
  sl_value :: rat
  sl_min :: rat
  sl_max :: rat
  sl_step :: rat
  sl_description :: string

text \<open>
  \<open>widgets.FloatSlider(value, min, max, step, description)\<close>: a maximum below the
  minimum is refused with TraitError; the value is capped and floored into the range.
\<close>

definition FloatSlider :: "rat \<Rightarrow> rat \<Rightarrow> rat \<Rightarrow> rat \<Rightarrow> string \<Rightarrow> py_error + slider" where
  "FloatSlider v lo hi st d =
     (if hi < lo then Inl TraitError
      else Inr \<lparr>sl_value = min (max v lo) hi, sl_min = lo, sl_max = hi, sl_step = st,
                sl_description = d\<rparr>)"

text \<open>
  The positions a user can drag the slider to: \<open>min + n * step\<close>, up to \<open>max\<close>.
\<close>

definition on_grid :: "slider \<Rightarrow> rat \<Rightarrow> bool" where
  "on_grid w v =
     (sl_min w \<le> v \<and> v \<le> sl_max w \<and> 0 < sl_step w \<and>
      of_int \<lfloor>(v - sl_min w) / sl_step w\<rfloor> = (v - sl_min w) / sl_step w)"

definition move :: "slider \<Rightarrow> rat \<Rightarrow> slider" where
  "move w v = (if on_grid w v then w\<lparr>sl_value := v\<rparr> else w)"

subsection \<open>The flowsheet module\<close>

text \<open>
  \<open>md_flow\<close> is imported, not defined, by the notebook: its functions are parameters.
  Each either raises or returns; the flowsheet object they work on is of any type
  \<open>'fs\<close>.
\<close>

record operating_conditions =
  feed_flow_mass :: rat
  feed_mass_frac_TDS :: rat
  overall_recovery :: rat

datatype display_kind = System | Design | State | Detailed_costs

record 'fs md_flow =
  md_build :: "py_error + 'fs"
  md_set_operating_conditions :: "'fs \<Rightarrow> operating_conditions \<Rightarrow> py_error + 'fs"
  md_initialize_system :: "'fs \<Rightarrow> py_error + 'fs"
  md_optimize_set_up :: "'fs \<Rightarrow> py_error + 'fs"
  md_solve :: "'fs \<Rightarrow> py_error + 'fs"
  md_display :: "display_kind \<Rightarrow> 'fs \<Rightarrow> py_error + unit"

datatype md_call =
  Build
  | Set_operating_conditions operating_conditions
  | Initialize_system
  | Optimize_set_up
  | Solve
  | Display display_kind

subsection \<open>The kernel of the notebook\<close>

text \<open>
  A name is \<open>None\<close> (or \<open>False\<close>) until its cell has run. \<open>md_calls\<close> lists the calls
  made into \<open>md_flow\<close>, in order; \<open>cell_error\<close> is the exception the last cell or
  handler ended with.
\<close>

record md_kernel =
  salinity_widget :: "slider option"
  flowrate_widget :: "slider option"
  recovery_widget :: "slider option"
  run_simulation_bound :: bool
  system_checkbox :: "bool option"
  design_checkbox :: "bool option"
  detailed_cost_checkbox :: "bool option"
  state_checkbox :: "bool option"
  run_button_shown :: bool
  md_calls :: "md_call list"
  cell_error :: "py_error option"


definition md_bind ::
  "md_kernel \<times> (py_error + 'a) \<Rightarrow> ('a \<Rightarrow> md_kernel \<Rightarrow> md_kernel \<times> (py_error + 'b))
     \<Rightarrow> md_kernel \<times> (py_error + 'b)" where
  "md_bind kr f = (case kr of (k, Inl e) \<Rightarrow> (k, Inl e) | (k, Inr x) \<Rightarrow> f x k)"

definition name :: "'a option \<Rightarrow> md_kernel \<Rightarrow> md_kernel \<times> (py_error + 'a)" where
  "name v k = (case v of None \<Rightarrow> (k, Inl NameError) | Some x \<Rightarrow> (k, Inr x))"

definition call :: "md_call \<Rightarrow> py_error + 'a \<Rightarrow> md_kernel \<Rightarrow> md_kernel \<times> (py_error + 'a)" where
  "call c r k = (k\<lparr>md_calls := md_calls k @ [c]\<rparr>, r)"

subsection \<open>The cells\<close>

definition feed_cell :: "md_kernel \<Rightarrow> md_kernel \<times> (py_error + unit)" where
  "feed_cell k =
     md_bind (k, FloatSlider (35 / 1000) (1 / 100) (15 / 100) (5 / 1000) ''Salinity:'') (\<lambda>s k.
     md_bind (k\<lparr>salinity_widget := Some s\<rparr>,
              FloatSlider 1 (1 / 10) 10 (1 / 10) ''Flowrate:'') (\<lambda>f k.
     (k\<lparr>flowrate_widget := Some f\<rparr>, Inr ())))"

definition max_recovery :: "rat \<Rightarrow> rat" where
  "max_recovery salinity = 1 - salinity / (3 / 10)"

definition recovery_cell :: "md_kernel \<Rightarrow> md_kernel \<times> (py_error + unit)" where
  "recovery_cell k =
     md_bind (name (salinity_widget k) k) (\<lambda>sw k.
     md_bind (k, FloatSlider (1 / 2) (1 / 10) (max_recovery (sl_value sw)) (1 / 10)
                   ''water recovery:'') (\<lambda>r k.
     (k\<lparr>recovery_widget := Some r\<rparr>, Inr ())))"

definition run_simulation ::
  "'fs md_flow \<Rightarrow> rat \<Rightarrow> rat \<Rightarrow> md_kernel \<Rightarrow> md_kernel \<times> (py_error + 'fs)" where
  "run_simulation md salinity flowrate k =
     md_bind (call Build (md_build md) k) (\<lambda>model k.
     md_bind (name (recovery_widget k) k) (\<lambda>rw k.
     (let oc = \<lparr>feed_flow_mass = flowrate, feed_mass_frac_TDS = salinity,
                 overall_recovery = sl_value rw\<rparr> in
     md_bind (call (Set_operating_conditions oc) (md_set_operating_conditions md model oc) k)
       (\<lambda>model k.
     md_bind (call Initialize_system (md_initialize_system md model) k) (\<lambda>model k.
     md_bind (call Optimize_set_up (md_optimize_set_up md model) k) (\<lambda>model k.
     call Solve (md_solve md model) k))))))"

definition checkbox_cell :: "md_kernel \<Rightarrow> md_kernel \<times> (py_error + unit)" where
  "checkbox_cell k =
     (k\<lparr>system_checkbox := Some False, design_checkbox := Some False,
        detailed_cost_checkbox := Some False, state_checkbox := Some False\<rparr>, Inr ())"

definition display_if ::
  "'fs md_flow \<Rightarrow> bool option \<Rightarrow> display_kind \<Rightarrow> 'fs \<Rightarrow> md_kernel
     \<Rightarrow> md_kernel \<times> (py_error + unit)" where
  "display_if md box kind model k =
     md_bind (name box k) (\<lambda>b k.
       if b then call (Display kind) (md_display md kind model) k else (k, Inr ()))"

definition on_run_button_clicked :: "'fs md_flow \<Rightarrow> md_kernel \<Rightarrow> md_kernel \<times> (py_error + unit)" where
  "on_run_button_clicked md k =
     md_bind (name (if run_simulation_bound k then Some () else None) k) (\<lambda>_ k.
     md_bind (name (salinity_widget k) k) (\<lambda>sw k.
     md_bind (name (flowrate_widget k) k) (\<lambda>fw k.
     md_bind (run_simulation md (sl_value sw) (sl_value fw) k) (\<lambda>model k.
     md_bind (display_if md (system_checkbox k) System model k) (\<lambda>_ k.
     md_bind (display_if md (design_checkbox k) Design model k) (\<lambda>_ k.
     md_bind (display_if md (state_checkbox k) State model k) (\<lambda>_ k.
     display_if md (detailed_cost_checkbox k) Detailed_costs model k)))))))"

subsection \<open>A session: cells run and widgets used, in any order\<close>

datatype md_event =
  Run_feed_cell
  | Run_recovery_cell
  | Run_simulation_cell
  | Run_checkbox_cell
  | Run_button_cell
  | Move_salinity rat
  | Move_flowrate rat
  | Move_recovery rat
  | Tick display_kind bool
  | Click_run

definition finish :: "md_kernel \<times> (py_error + unit) \<Rightarrow> md_kernel" where
  "finish kr =
     (case kr of (k, Inl e) \<Rightarrow> k\<lparr>cell_error := Some e\<rparr> | (k, Inr _) \<Rightarrow> k\<lparr>cell_error := None\<rparr>)"

fun md_step :: "'fs md_flow \<Rightarrow> md_kernel \<Rightarrow> md_event \<Rightarrow> md_kernel" where
  "md_step md k Run_feed_cell = finish (feed_cell k)"
| "md_step md k Run_recovery_cell = finish (recovery_cell k)"
| "md_step md k Run_simulation_cell = k\<lparr>run_simulation_bound := True, cell_error := None\<rparr>"
| "md_step md k Run_checkbox_cell = finish (checkbox_cell k)"
| "md_step md k Run_button_cell = k\<lparr>run_button_shown := True, cell_error := None\<rparr>"
| "md_step md k (Move_salinity v) = k\<lparr>salinity_widget := map_option (\<lambda>w. move w v) (salinity_widget k)\<rparr>"
| "md_step md k (Move_flowrate v) = k\<lparr>flowrate_widget := map_option (\<lambda>w. move w v) (flowrate_widget k)\<rparr>"
| "md_step md k (Move_recovery v) = k\<lparr>recovery_widget := map_option (\<lambda>w. move w v) (recovery_widget k)\<rparr>"
| "md_step md k (Tick System b) = k\<lparr>system_checkbox := map_option (\<lambda>_. b) (system_checkbox k)\<rparr>"
| "md_step md k (Tick Design b) = k\<lparr>design_checkbox := map_option (\<lambda>_. b) (design_checkbox k)\<rparr>"
| "md_step md k (Tick State b) = k\<lparr>state_checkbox := map_option (\<lambda>_. b) (state_checkbox k)\<rparr>"
| "md_step md k (Tick Detailed_costs b) =
     k\<lparr>detailed_cost_checkbox := map_option (\<lambda>_. b) (detailed_cost_checkbox k)\<rparr>"
| "md_step md k Click_run =
     (if run_button_shown k then finish (on_run_button_clicked md k) else k)"




text \<open>
  A kernel extends another when its list of \<open>md_flow\<close> calls continues the other's.
\<close>

definition extends :: "md_kernel \<Rightarrow> md_kernel \<Rightarrow> bool" where
  "extends k k' = (\<exists>cs. md_calls k' = md_calls k @ cs)"

section \<open>ModelBuilder, from the specification\<close>

text \<open>
  Modelled from the spec: the data model of ModelBuilder and \<open>build\<close> itself. The
  notebook only calls \<open>build\<close> (\<open>integrated_model_build\<close>, imported); its body is
  not among the sources. The definitions follow sections 3 and 4.2 of the
  specification. What the
  specification leaves to the external physics is a parameter: the name of the site
  set, the network's own variables and constraints, and the unit sub-model with its
  maximum number of stages.
\<close>

datatype harness_error =
  DataFormatError | ConfigurationError | InitializationError | ExtractionError

record RawInputTable =
  set_definitions :: "string \<rightharpoonup> string list"
  parameters :: "string \<rightharpoonup> (string list \<rightharpoonup> rat)"

text \<open>A mapping literal such as \<open>{"R01_IN": 1}\<close>: the entries in insertion order.\<close>

type_synonym SiteDesignSelection = "(site \<times> int) list"

datatype domain = Continuous_bounded | Continuous_unbounded | Binary

datatype variable =
  Network_variable string
  | Node_inflow site
  | Node_outflow site
  | Unit_variable site nat string

datatype constraint =
  Network_constraint string
  | Pass_through site
  | Unit_constraint site nat string
  | Wire site nat

record ModelInstance =
  variables :: "(variable \<times> domain) list"
  constraints :: "constraint list"
  objective :: "variable list"

record unit_model =
  unit_variables :: "(string \<times> domain) list"
  unit_constraints :: "string list"
  max_stages :: nat

record physics =
  site_set :: string
  network_variables :: "RawInputTable \<Rightarrow> (string \<times> domain) list"
  network_constraints :: "RawInputTable \<Rightarrow> string list"
  network_objective :: "RawInputTable \<Rightarrow> variable list"
  unit :: unit_model

definition network_sites :: "physics \<Rightarrow> RawInputTable \<Rightarrow> site list" where
  "network_sites ph t = (case set_definitions t (site_set ph) of None \<Rightarrow> [] | Some xs \<Rightarrow> xs)"

text \<open>
  Modelled from the spec: the network \<open>build\<close> starts from (its construction from
  the table is not among the sources). Every node of the site set has an inflow and an
  outflow variable and passes its flow through ("the node's prior pass-through
  behavior").
\<close>

definition network_model :: "physics \<Rightarrow> RawInputTable \<Rightarrow> ModelInstance" where
  "network_model ph t =
     \<lparr>variables =
        map (\<lambda>(n, d). (Network_variable n, d)) (network_variables ph t) @
        concat (map (\<lambda>s. [(Node_inflow s, Continuous_bounded),
                            (Node_outflow s, Continuous_bounded)]) (network_sites ph t)),
      constraints =
        map Network_constraint (network_constraints ph t) @
        map Pass_through (network_sites ph t),
      objective = network_objective ph t\<rparr>"

text \<open>
  Modelled from the spec: the placement of units at one node, missing from the sources
  ("instantiates count chained process-unit sub-models at that network node and wires
  their inlet/outlet ports to the surrounding network's flow variables, replacing the
  node's prior pass-through behavior"). The variables and constraints of stages
  \<open>1 .. count\<close> are added; wire \<open>0\<close> joins the node's inflow to the first inlet,
  wire \<open>i\<close> the outlet of stage \<open>i\<close> to the next inlet, wire \<open>count\<close> the last
  outlet to the node's outflow; the node's pass-through constraint is removed. The
  specification excludes a count below 1 by the selection's invariant and does not
  say what \<open>build\<close> does with one; here no stage is placed then.
\<close>

definition stage_variables :: "unit_model \<Rightarrow> site \<Rightarrow> nat \<Rightarrow> (variable \<times> domain) list" where
  "stage_variables u s i = map (\<lambda>(n, d). (Unit_variable s i n, d)) (unit_variables u)"

definition stage_constraints :: "unit_model \<Rightarrow> site \<Rightarrow> nat \<Rightarrow> constraint list" where
  "stage_constraints u s i = map (Unit_constraint s i) (unit_constraints u)"

definition place_units :: "unit_model \<Rightarrow> site \<Rightarrow> nat \<Rightarrow> ModelInstance \<Rightarrow> ModelInstance" where
  "place_units u s count mi =
     mi\<lparr>variables := variables mi @ concat (map (stage_variables u s) [1..<Suc count]),
        constraints :=
          filter (\<lambda>c. c \<noteq> Pass_through s) (constraints mi) @
          concat (map (stage_constraints u s) [1..<Suc count]) @
          map (Wire s) [0..<Suc count]\<rparr>"

text \<open>
  Modelled from the spec: the loop of \<open>build\<close> over the selection, missing from the
  sources ("for every site named in selection ..."; "fails with ConfigurationError if a
  site in selection has no corresponding network node, or if the requested stage count
  exceeds a unit-model-defined maximum"). The entries are taken in order; the model
  built so far is dropped when an entry is refused.
\<close>

fun place_selection ::
  "physics \<Rightarrow> site list \<Rightarrow> SiteDesignSelection \<Rightarrow> ModelInstance
     \<Rightarrow> harness_error + ModelInstance" where
  "place_selection ph sites [] mi = Inr mi"
| "place_selection ph sites ((s, count) # sel) mi =
     (if s \<notin> set sites then Inl ConfigurationError
      else if int (max_stages (unit ph)) < count then Inl ConfigurationError
      else place_selection ph sites sel (place_units (unit ph) s (nat count) mi))"

text \<open>
  Modelled from the spec: \<open>build(table, selection)\<close>, missing from the sources (the
  notebook imports it as \<open>integrated_model_build\<close>).
\<close>

definition build :: "physics \<Rightarrow> RawInputTable \<Rightarrow> SiteDesignSelection \<Rightarrow> harness_error + ModelInstance" where
  "build ph t selection =
     place_selection ph (network_sites ph t) selection (network_model ph t)"

text \<open>Two mapping literals are equal when they hold the same entries, in any order.\<close>

definition same_mapping :: "SiteDesignSelection \<Rightarrow> SiteDesignSelection \<Rightarrow> bool" where
  "same_mapping a b = (distinct (map fst a) \<and> distinct (map fst b) \<and> set a = set b)"

definition same_counts :: "harness_error + ModelInstance \<Rightarrow> harness_error + ModelInstance \<Rightarrow> bool" where
  "same_counts x y =
     (case (x, y) of
        (Inr a, Inr b) \<Rightarrow>
          length (variables a) = length (variables b) \<and>
          length (constraints a) = length (constraints b)
      | (Inl e, Inl e') \<Rightarrow> e = e'
      | _ \<Rightarrow> False)"

definition demo_physics :: physics where
  "demo_physics =
     \<lparr>site_set = ''sites'',
      network_variables = (\<lambda>t. [(''arc_cost'', Continuous_bounded)]),
      network_constraints = (\<lambda>t. [''flow_balance'']),
      network_objective = (\<lambda>t. [Network_variable ''arc_cost'']),
      unit = \<lparr>unit_variables = [(''area'', Continuous_bounded), (''on'', Binary)],
              unit_constraints = [''mass_balance'', ''energy_balance''],
              max_stages = 3\<rparr>\<rparr>"

definition demo_table :: RawInputTable where
  "demo_table =
     \<lparr>set_definitions = [''sites'' \<mapsto> [''R01_IN'', ''R02_IN'']], parameters = Map.empty\<rparr>"

text \<open>
  A selection is admissible when every entry passes both checks of \<open>build\<close>;
  \<open>pass_throughs\<close> counts the pass-through constraints a model holds for a node.
\<close>

definition admissible :: "physics \<Rightarrow> site list \<Rightarrow> SiteDesignSelection \<Rightarrow> bool" where
  "admissible ph sites sel =
     list_all (\<lambda>(s, count). s \<in> set sites \<and> count \<le> int (max_stages (unit ph))) sel"

definition pass_throughs :: "ModelInstance \<Rightarrow> site \<Rightarrow> nat" where
  "pass_throughs mi s = length (filter (\<lambda>c. c = Pass_through s) (constraints mi))"

section \<open>Properties of the solve cell\<close>

lemma solve_without_executable:
  "\<not> executable env (solver_name sv) \<Longrightarrow> solve env sv tee k = (k, Some ApplicationError)"
  by (simp add: solve_def)

lemma solve_started:
  assumes "executable env (solver_name sv)"
    and "r = process env (length (solver_calls k)) (solver_name sv) (options sv) (var_m k)"
  shows "solve env sv tee k =
     (if rs_status r = SolverError
      then (k\<lparr>solver_calls := solver_calls k @
                 [\<lparr>inv_solver = solver_name sv, inv_options = options sv,
                   inv_tee = tee, inv_model = var_m k\<rparr>],
               stdout := stdout k @ (if tee then map Text (rs_log r) else []),
               last_result := Some SolverError\<rparr>, Some ValueError)
      else (k\<lparr>solver_calls := solver_calls k @
                 [\<lparr>inv_solver = solver_name sv, inv_options = options sv,
                   inv_tee = tee, inv_model = var_m k\<rparr>],
               stdout := stdout k @ (if tee then map Text (rs_log r) else []),
               var_m := rs_solution r, last_result := Some (rs_status r)\<rparr>, None))"
  using assms by (simp add: solve_def launch_def Let_def)

lemma solve_cell_solve:
  "solve_cell env k =
     solve env
       \<lparr>solver_name = ''ipopt'',
        options = [(''mu_init'', 1 / 1000000), (''bound_push'', 1 / 1000000)]\<rparr> True
       (k\<lparr>var_ipopt :=
            Some \<lparr>solver_name = ''ipopt'',
                  options = [(''mu_init'', 1 / 1000000), (''bound_push'', 1 / 1000000)]\<rparr>\<rparr>)"
  by (simp add: solve_cell_def SolverFactory_def set_option_def Let_def)

lemma solve_cell_started:
  assumes "executable env ''ipopt''"
    and "r = process env (length (solver_calls k)) ''ipopt''
               [(''mu_init'', 1 / 1000000), (''bound_push'', 1 / 1000000)] (var_m k)"
  shows "var_m (fst (solve_cell env k)) =
           (if rs_status r = SolverError then var_m k else rs_solution r)"
    and "last_result (fst (solve_cell env k)) = Some (rs_status r)"
    and "snd (solve_cell env k) = (if rs_status r = SolverError then Some ValueError else None)"
    and "solver_calls (fst (solve_cell env k)) =
           solver_calls k @
           [\<lparr>inv_solver = ''ipopt'',
             inv_options = [(''mu_init'', 1 / 1000000), (''bound_push'', 1 / 1000000)],
             inv_tee = True, inv_model = var_m k\<rparr>]"
  using assms by (simp_all add: solve_cell_solve solve_started)

text \<open>
  C6. \<open>solve\<close> starts the external solver exactly once, with the options of the solver
  object, on the kernel's model: one run is entered in the list of runs, and what
  \<open>solve\<close> leaves is what that run ended with, its status and (unless the run ended
  with a solver error, where \<open>solve\<close> raises ValueError and the model keeps its values)
  its values. The run is the next run of the session, so no earlier or later run,
  hence no retry from another starting point, has a part in the outcome, whatever the
  status. The same holds of the solve cell, whose one run is started under the name
  \<open>ipopt\<close> with the options \<open>mu_init = 1e-6\<close> and \<open>bound_push = 1e-6\<close> and with
  \<open>tee = True\<close>. This holds where the solver's executable is installed; without it
  \<open>solve\<close> raises before any run (\<open>solve_without_executable\<close>).
\<close>

theorem solve_invokes_solver_once:
  assumes "executable env (solver_name sv)"
    and "r = process env (length (solver_calls k)) (solver_name sv) (options sv) (var_m k)"
    and "executable env ''ipopt''"
    and "r0 = process env (length (solver_calls k)) ''ipopt''
                [(''mu_init'', 1 / 1000000), (''bound_push'', 1 / 1000000)] (var_m k)"
  shows "solver_calls (fst (solve env sv tee k)) =
           solver_calls k @
           [\<lparr>inv_solver = solver_name sv, inv_options = options sv,
             inv_tee = tee, inv_model = var_m k\<rparr>]
       \<and> last_result (fst (solve env sv tee k)) = Some (rs_status r)
       \<and> var_m (fst (solve env sv tee k)) =
           (if rs_status r = SolverError then var_m k else rs_solution r)
       \<and> snd (solve env sv tee k) =
           (if rs_status r = SolverError then Some ValueError else None)
       \<and> solver_calls (fst (solve_cell env k)) =
           solver_calls k @
           [\<lparr>inv_solver = ''ipopt'',
             inv_options = [(''mu_init'', 1 / 1000000), (''bound_push'', 1 / 1000000)],
             inv_tee = True, inv_model = var_m k\<rparr>]
       \<and> last_result (fst (solve_cell env k)) = Some (rs_status r0)
       \<and> var_m (fst (solve_cell env k)) =
           (if rs_status r0 = SolverError then var_m k else rs_solution r0)
       \<and> snd (solve_cell env k) =
           (if rs_status r0 = SolverError then Some ValueError else None)"
  using solve_started[OF assms(1,2), of tee] solve_cell_started[OF assms(3,4)] by simp

theorem solve_invokes_solver_once_witness:
  "executable optimal_env ''ipopt''
   \<and> solver_calls (fst (solve_cell optimal_env fresh_kernel)) =
       [\<lparr>inv_solver = ''ipopt'',
         inv_options = [(''mu_init'', 1 / 1000000), (''bound_push'', 1 / 1000000)],
         inv_tee = True, inv_model = fresh_model\<rparr>]
   \<and> last_result (fst (solve_cell optimal_env fresh_kernel)) = Some Optimal
   \<and> var_m (fst (solve_cell optimal_env fresh_kernel)) = demo_model
   \<and> snd (solve_cell optimal_env fresh_kernel) = None"
proof -
  let ?sv = "\<lparr>solver_name = ''ipopt'',
               options = [(''mu_init'', 1 / 1000000), (''bound_push'', 1 / 1000000)]\<rparr>"
  have e: "executable optimal_env (solver_name ?sv)" and e0: "executable optimal_env ''ipopt''"
    by (simp_all add: optimal_env_def)
  have r: "\<lparr>rs_status = Optimal, rs_solution = demo_model, rs_log = [''EXIT: Optimal'']\<rparr> =
      process optimal_env (length (solver_calls fresh_kernel)) (solver_name ?sv) (options ?sv)
        (var_m fresh_kernel)"
    by (simp add: optimal_env_def)
  have r0: "\<lparr>rs_status = Optimal, rs_solution = demo_model, rs_log = [''EXIT: Optimal'']\<rparr> =
      process optimal_env (length (solver_calls fresh_kernel)) ''ipopt''
        [(''mu_init'', 1 / 1000000), (''bound_push'', 1 / 1000000)] (var_m fresh_kernel)"
    by (simp add: optimal_env_def)
  from solve_invokes_solver_once[OF e r e0 r0, of True] e0
  show ?thesis
    by (simp add: fresh_kernel_def)
qed

section \<open>Properties of the results cell\<close>

lemma exec_printed:
  "exec ss k = (k\<lparr>stdout := stdout k @ fst (printed ss (var_m k))\<rparr>, snd (printed ss (var_m k)))"
proof (induction ss k rule: exec.induct)
  case (1 k)
  then show ?case by simp
next
  case (2 s ss k)
  then show ?case by (simp add: case_prod_beta)
next
  case (3 f ss k)
  then show ?case by (cases "f (var_m k)") (simp_all add: case_prod_beta)
qed

lemma getitem_has_value:
  "has_value v k \<Longrightarrow> getitem v k = Inr (Var (Some (val_at v k)))"
  by (auto simp: has_value_def getitem_def val_at_def split: option.splits)

lemma sum_from_value:
  "pyo_value acc = Inr a \<Longrightarrow>
   (\<And>x. x \<in> set xs \<Longrightarrow> \<exists>e. f x = Inr e \<and> pyo_value e = Inr (g x)) \<Longrightarrow>
   \<exists>e. sum_from acc f xs = Inr e \<and> pyo_value e = Inr (a + sum_list (map g xs))"
proof (induction xs arbitrary: acc a)
  case Nil
  then show ?case by simp
next
  case (Cons x xs)
  from Cons.prems(2)[of x] obtain y where y: "f x = Inr y" "pyo_value y = Inr (g x)"
    by auto
  have acc': "pyo_value (Add acc y) = Inr (a + g x)"
    using Cons.prems(1) y by (simp add: bind_err_def)
  have "\<exists>e. sum_from (Add acc y) f xs = Inr e \<and>
            pyo_value e = Inr ((a + g x) + sum_list (map g xs))"
    using Cons.IH[OF acc'] Cons.prems(2) by simp
  then show ?case using y by (simp add: bind_err_def add.assoc)
qed

lemma py_sum_value:
  "(\<And>x. x \<in> set xs \<Longrightarrow> \<exists>e. f x = Inr e \<and> pyo_value e = Inr (g x)) \<Longrightarrow>
   \<exists>e. py_sum f xs = Inr e \<and> pyo_value e = Inr (sum_list (map g xs))"
  using sum_from_value[of "Num 0" 0 xs f g] by (simp add: py_sum_def)

lemma opex_term_value:
  "has_value (OPEX m) (s, t) \<Longrightarrow>
   \<exists>e. opex_term m s t = Inr e \<and>
       pyo_value e = Inr (val_at (OPEX m) (s, t) / 365 * p_dt (m_network m))"
  by (simp add: opex_term_def getitem_has_value bind_err_def)

lemma treatment_opex_loaded:
  assumes "values_loaded m"
  shows "treatment_opex m =
     Inr (1000 * (\<Sum>s\<leftarrow>desalination_nodes (m_network m).
                   \<Sum>t\<leftarrow>s_T (m_network m). val_at (OPEX m) (s, t) / 365 * p_dt (m_network m)))"
proof -
  have inner: "\<exists>e. py_sum (\<lambda>t. opex_term m s t) (s_T (m_network m)) = Inr e \<and>
      pyo_value e = Inr (\<Sum>t\<leftarrow>s_T (m_network m). val_at (OPEX m) (s, t) / 365 * p_dt (m_network m))"
    if "s \<in> set (desalination_nodes (m_network m))" for s
  proof (rule py_sum_value)
    fix t assume "t \<in> set (s_T (m_network m))"
    with assms that have "has_value (OPEX m) (s, t)"
      by (auto simp: values_loaded_def list_all_iff)
    then show "\<exists>e. opex_term m s t = Inr e \<and>
       pyo_value e = Inr (val_at (OPEX m) (s, t) / 365 * p_dt (m_network m))"
      by (rule opex_term_value)
  qed
  have "\<exists>e. opex_expr m = Inr e \<and> pyo_value e =
      Inr (\<Sum>s\<leftarrow>desalination_nodes (m_network m).
             \<Sum>t\<leftarrow>s_T (m_network m). val_at (OPEX m) (s, t) / 365 * p_dt (m_network m))"
    unfolding opex_expr_def by (rule py_sum_value) (rule inner)
  then show ?thesis by (auto simp: treatment_opex_def bind_err_def)
qed

lemma treatment_capex_loaded:
  assumes "values_loaded m"
  shows "treatment_capex m =
     Inr (1000 * ((\<Sum>s\<leftarrow>desalination_nodes (m_network m). val_at (CAPEX m) s) / 365
                  * p_dt (m_network m) * of_nat (length (s_T (m_network m)))))"
proof -
  have "\<exists>e. py_sum (\<lambda>s. getitem (CAPEX m) s) (desalination_nodes (m_network m)) = Inr e \<and>
      pyo_value e = Inr (\<Sum>s\<leftarrow>desalination_nodes (m_network m). val_at (CAPEX m) s)"
  proof (rule py_sum_value)
    fix s assume "s \<in> set (desalination_nodes (m_network m))"
    with assms have "has_value (CAPEX m) s"
      by (auto simp: values_loaded_def list_all_iff)
    then show "\<exists>e. getitem (CAPEX m) s = Inr e \<and> pyo_value e = Inr (val_at (CAPEX m) s)"
      by (simp add: getitem_has_value)
  qed
  then show ?thesis by (auto simp: treatment_capex_def capex_expr_def bind_err_def)
qed

lemma extract_results_printed:
  "extract_results k =
     (case snd (printed results_cell (var_m k)) of
        Some e \<Rightarrow> Inl e
      | None \<Rightarrow> Inr (report_of (fst (printed results_cell (var_m k)))),
      k\<lparr>stdout := stdout k @ fst (printed results_cell (var_m k))\<rparr>)"
  by (simp add: extract_results_def exec_printed split: option.splits)

lemma extract_results_loaded:
  assumes "values_loaded m" and "var_m k = m" and "m_network m = n"
  shows "fst (extract_results k) =
     Inr [(''Piping cost'', the (arc_cost n)),
          (''Disposal cost'', the (disp_cost n)),
          (''Fresh water cost'', the (fresh_cost n)),
          (''Storage Cost'', the (stor_cost n)),
          (''Storage reward'', the (stor_rev n)),
          (''Treatment reward'', the (treat_rev n)),
          (''Treatment cost - OPEX'',
             1000 * (\<Sum>s\<leftarrow>desalination_nodes n. \<Sum>t\<leftarrow>s_T n.
                        val_at (OPEX m) (s, t) / 365 * p_dt n)),
          (''Treatment cost - CAPEX'',
             1000 * ((\<Sum>s\<leftarrow>desalination_nodes n. val_at (CAPEX m) s) / 365
                     * p_dt n * of_nat (length (s_T n))))]"
proof -
  from assms obtain a d f s sr tr where sc:
    "arc_cost n = Some a" "disp_cost n = Some d" "fresh_cost n = Some f"
    "stor_cost n = Some s" "stor_rev n = Some sr" "treat_rev n = Some tr"
    by (auto simp: values_loaded_def scalars_loaded_def)
  have p: "printed results_cell m =
    ([Text rule_line,
      Text ''#########            Costing Variables (USD)        #############'',
      Text rule_line, Text ''Piping cost'', Number a,
      Text rule_line, Text ''Disposal cost'', Number d,
      Text rule_line, Text ''Fresh water cost'', Number f,
      Text rule_line, Text ''Storage Cost'', Number s,
      Text rule_line, Text ''Storage reward'', Number sr,
      Text rule_line, Text ''Treatment reward'', Number tr,
      Text rule_line, Text ''Treatment cost - OPEX'',
      Number (1000 * (\<Sum>s\<leftarrow>desalination_nodes n. \<Sum>t\<leftarrow>s_T n.
                        val_at (OPEX m) (s, t) / 365 * p_dt n)),
      Text ''Treatment cost - CAPEX'',
      Number (1000 * ((\<Sum>s\<leftarrow>desalination_nodes n. val_at (CAPEX m) s) / 365
                     * p_dt n * of_nat (length (s_T n)))),
      Text rule_line], None)"
    using sc treatment_opex_loaded[OF assms(1)] treatment_capex_loaded[OF assms(1)] assms(3)
    by (simp add: results_cell_def)
  show ?thesis
    unfolding extract_results_printed assms(2) p using sc by simp
qed

lemma demo_loaded: "values_loaded demo_model"
  by (simp add: values_loaded_def scalars_loaded_def demo_model_def demo_network_def has_value_def)

lemma extract_results_var_m: "var_m (snd (extract_results k)) = var_m k"
  by (simp add: extract_results_printed)

lemma extract_results_depends_on_model:
  "var_m k' = var_m k \<Longrightarrow> fst (extract_results k') = fst (extract_results k)"
  by (simp add: extract_results_printed split: option.splits)

text \<open>
  C5. A successfully solved model: the solve cell has run, the run of the solver ended
  Optimal or FeasibleSuboptimal, and it left a value in every variable the results cell
  reads. Then the solve cell raises nothing, and the report of the results cell has
  exactly these eight fields, each holding the quantity of the solved model it is
  named after: piping cost the value of \<open>arc_cost\<close>, disposal cost of \<open>disp_cost\<close>,
  fresh water cost of \<open>fresh_cost\<close>, storage cost of \<open>stor_cost\<close>, storage reward of
  \<open>stor_rev\<close>, treatment reward of \<open>treat_rev\<close>, treatment OPEX and CAPEX the sums of
  the model's \<open>OPEX\<close> and \<open>CAPEX\<close> values brought to the length of the horizon
  (\<open>/ 365 * p_dt\<close>, CAPEX times the number of periods) and scaled by 1000.
\<close>

theorem results_report_fields:
  assumes "executable env ''ipopt''"
    and "r = process env (length (solver_calls k)) ''ipopt''
               [(''mu_init'', 1 / 1000000), (''bound_push'', 1 / 1000000)] (var_m k)"
    and "rs_status r = Optimal \<or> rs_status r = FeasibleSuboptimal"
    and "values_loaded (rs_solution r)"
    and "m_network (rs_solution r) = n"
  shows "snd (solve_cell env k) = None
       \<and> var_m (fst (solve_cell env k)) = rs_solution r
       \<and> fst (extract_results (fst (solve_cell env k))) =
           Inr [(''Piping cost'', the (arc_cost n)),
                (''Disposal cost'', the (disp_cost n)),
                (''Fresh water cost'', the (fresh_cost n)),
                (''Storage Cost'', the (stor_cost n)),
                (''Storage reward'', the (stor_rev n)),
                (''Treatment reward'', the (treat_rev n)),
                (''Treatment cost - OPEX'',
                   1000 * (\<Sum>s\<leftarrow>desalination_nodes n. \<Sum>t\<leftarrow>s_T n.
                              val_at (OPEX (rs_solution r)) (s, t) / 365 * p_dt n)),
                (''Treatment cost - CAPEX'',
                   1000 * ((\<Sum>s\<leftarrow>desalination_nodes n. val_at (CAPEX (rs_solution r)) s) / 365
                           * p_dt n * of_nat (length (s_T n))))]"
proof -
  from assms(3) have ok: "rs_status r \<noteq> SolverError"
    by auto
  have m: "var_m (fst (solve_cell env k)) = rs_solution r"
    using solve_cell_started(1)[OF assms(1,2)] ok by simp
  have e: "snd (solve_cell env k) = None"
    using solve_cell_started(3)[OF assms(1,2)] ok by simp
  from extract_results_loaded[OF assms(4) m assms(5)] m e show ?thesis
    by simp
qed

theorem results_report_fields_witness:
  "executable optimal_env ''ipopt''
   \<and> values_loaded demo_model
   \<and> snd (solve_cell optimal_env fresh_kernel) = None
   \<and> var_m (fst (solve_cell optimal_env fresh_kernel)) = demo_model
   \<and> fst (extract_results (fst (solve_cell optimal_env fresh_kernel))) =
       Inr [(''Piping cost'', 120), (''Disposal cost'', 30), (''Fresh water cost'', 0),
            (''Storage Cost'', 5), (''Storage reward'', 2), (''Treatment reward'', 40),
            (''Treatment cost - OPEX'', 4200), (''Treatment cost - CAPEX'', 14000)]"
proof -
  have e: "executable optimal_env ''ipopt''"
    by (simp add: optimal_env_def)
  have r: "\<lparr>rs_status = Optimal, rs_solution = demo_model, rs_log = [''EXIT: Optimal'']\<rparr> =
      process optimal_env (length (solver_calls fresh_kernel)) ''ipopt''
        [(''mu_init'', 1 / 1000000), (''bound_push'', 1 / 1000000)] (var_m fresh_kernel)"
    by (simp add: optimal_env_def)
  have s: "rs_status \<lparr>rs_status = Optimal, rs_solution = demo_model,
                      rs_log = [''EXIT: Optimal'']\<rparr> = Optimal
         \<or> rs_status \<lparr>rs_status = Optimal, rs_solution = demo_model,
                        rs_log = [''EXIT: Optimal'']\<rparr> = FeasibleSuboptimal"
    by simp
  have v: "values_loaded (rs_solution \<lparr>rs_status = Optimal, rs_solution = demo_model,
                                       rs_log = [''EXIT: Optimal'']\<rparr>)"
    using demo_loaded by simp
  have n: "m_network (rs_solution \<lparr>rs_status = Optimal, rs_solution = demo_model,
                                    rs_log = [''EXIT: Optimal'']\<rparr>) = demo_network"
    by (simp add: demo_model_def)
  from results_report_fields[OF e r s v n] e demo_loaded show ?thesis
    by (simp add: demo_model_def demo_network_def val_at_def)
qed

text \<open>
  C10. In the report, the treatment OPEX field is 1000 times the sum over the
  desalination nodes \<open>s\<close> and the periods \<open>t\<close> of \<open>OPEX[s, t] / 365 * p_dt\<close>; the
  treatment CAPEX field is 1000 times the sum over the desalination nodes of
  \<open>CAPEX[s]\<close>, divided by 365, times \<open>p_dt\<close>, times the number of periods; the six
  network cost fields are the values of the model's variables as they are, with no
  factor.
\<close>

theorem treatment_costs_scaled:
  assumes "var_m k = m" and "m_network m = n"
    and "arc_cost n = Some a" and "disp_cost n = Some d" and "fresh_cost n = Some f"
    and "stor_cost n = Some s" and "stor_rev n = Some sr" and "treat_rev n = Some tr"
    and "list_all (\<lambda>s. list_all (\<lambda>t. has_value (OPEX m) (s, t)) (s_T n)) (desalination_nodes n)"
    and "list_all (has_value (CAPEX m)) (desalination_nodes n)"
  shows "fst (extract_results k) =
     Inr [(''Piping cost'', a), (''Disposal cost'', d), (''Fresh water cost'', f),
          (''Storage Cost'', s), (''Storage reward'', sr), (''Treatment reward'', tr),
          (''Treatment cost - OPEX'',
             1000 * (\<Sum>s\<leftarrow>desalination_nodes n. \<Sum>t\<leftarrow>s_T n.
                        val_at (OPEX m) (s, t) / 365 * p_dt n)),
          (''Treatment cost - CAPEX'',
             1000 * ((\<Sum>s\<leftarrow>desalination_nodes n. val_at (CAPEX m) s) / 365
                     * p_dt n * of_nat (length (s_T n))))]"
proof -
  have "values_loaded m"
    using assms by (simp add: values_loaded_def scalars_loaded_def)
  from extract_results_loaded[OF this assms(1,2)] show ?thesis
    using assms(3-8) by simp
qed

theorem treatment_costs_scaled_witness:
  "fst (extract_results demo_kernel) =
     Inr [(''Piping cost'', 120), (''Disposal cost'', 30), (''Fresh water cost'', 0),
          (''Storage Cost'', 5), (''Storage reward'', 2), (''Treatment reward'', 40),
          (''Treatment cost - OPEX'', 1000 * ((73 / 365 * 7 + 146 / 365 * 7))),
          (''Treatment cost - CAPEX'', 1000 * (365 / 365 * 7 * 2))]"
  using treatment_costs_scaled[of demo_kernel demo_model demo_network 120 30 0 5 2 40]
  by (simp add: demo_kernel_def demo_model_def demo_network_def has_value_def val_at_def)

text \<open>
  C8. Running the results cell a second time, with no solve in between, gives a report
  equal to the first one field by field; the first run leaves the model as it was
  (only the printed output grows).
\<close>

theorem extract_twice_same:
  assumes "fst (extract_results k) = Inr r"
  shows "fst (extract_results (snd (extract_results k))) = Inr r
       \<and> var_m (snd (extract_results k)) = var_m k"
  using assms extract_results_depends_on_model[OF extract_results_var_m, of k]
  by (simp add: extract_results_var_m)

theorem extract_twice_same_witness:
  "fst (extract_results demo_kernel) =
     Inr [(''Piping cost'', 120), (''Disposal cost'', 30), (''Fresh water cost'', 0),
          (''Storage Cost'', 5), (''Storage reward'', 2), (''Treatment reward'', 40),
          (''Treatment cost - OPEX'', 4200), (''Treatment cost - CAPEX'', 14000)]
   \<and> fst (extract_results (snd (extract_results demo_kernel))) =
     Inr [(''Piping cost'', 120), (''Disposal cost'', 30), (''Fresh water cost'', 0),
          (''Storage Cost'', 5), (''Storage reward'', 2), (''Treatment reward'', 40),
          (''Treatment cost - OPEX'', 4200), (''Treatment cost - CAPEX'', 14000)]"
proof -
  have h: "fst (extract_results demo_kernel) =
     Inr [(''Piping cost'', 120), (''Disposal cost'', 30), (''Fresh water cost'', 0),
          (''Storage Cost'', 5), (''Storage reward'', 2), (''Treatment reward'', 40),
          (''Treatment cost - OPEX'', 4200), (''Treatment cost - CAPEX'', 14000)]"
    by code_simp
  show ?thesis using h extract_twice_same[OF h] by simp
qed






section \<open>Properties of the membrane distillation notebook\<close>



lemma md_calls_call: "md_calls (fst (call c r k)) = md_calls k @ [c]"
  by (simp add: call_def)


lemma md_bind_Inl: "md_bind (k, Inl e) f = (k, Inl e)"
  by (simp add: md_bind_def)


lemma extends_trans: "extends a b \<Longrightarrow> extends b c \<Longrightarrow> extends a c"
  by (auto simp: extends_def)

lemma extends_call: "extends k (fst (call c r k))"
  by (simp add: extends_def call_def)

lemma extends_name: "extends k (fst (name v k))"
  by (simp add: extends_def name_def split: option.splits)

lemma extends_bind:
  assumes "extends k (fst kr)" and "\<And>x k'. extends k' (fst (f x k'))"
  shows "extends k (fst (md_bind kr f))"
proof (cases kr)
  case (Pair k1 r)
  show ?thesis
  proof (cases r)
    case (Inl e)
    with Pair assms(1) show ?thesis by (simp add: md_bind_def)
  next
    case (Inr x)
    with Pair assms(1) assms(2)[of k1 x] show ?thesis
      by (auto simp: md_bind_def intro: extends_trans)
  qed
qed




lemma extends_run_simulation: "extends k (fst (run_simulation md salinity flowrate k))"
  unfolding run_simulation_def Let_def
  by (intro extends_bind extends_call extends_name)


lemma move_salinity_keeps_recovery:
  "recovery_widget (md_step md k (Move_salinity v)) = recovery_widget k"
  by simp




section \<open>Properties of the model builder\<close>

lemma place_selection_absent:
  "(s, count) \<in> set sel \<Longrightarrow> s \<notin> set sites \<Longrightarrow>
   place_selection ph sites sel mi = Inl ConfigurationError"
  by (induction sel arbitrary: mi) auto

lemma place_selection_not_admissible:
  "\<not> admissible ph sites sel \<Longrightarrow> place_selection ph sites sel mi = Inl ConfigurationError"
  by (induction sel arbitrary: mi) (auto simp: admissible_def split: if_splits)

lemma length_stage_variables:
  "length (concat (map (stage_variables u s) xs)) = length xs * length (unit_variables u)"
  by (induction xs) (simp_all add: stage_variables_def)

lemma length_stage_constraints:
  "length (concat (map (stage_constraints u s) xs)) = length xs * length (unit_constraints u)"
  by (induction xs) (simp_all add: stage_constraints_def)

lemma variables_place_units:
  "length (variables (place_units u s n mi)) =
     length (variables mi) + n * length (unit_variables u)"
  by (simp add: place_units_def length_stage_variables)

lemma filter_stage_constraints:
  "filter (\<lambda>c. c = Pass_through s') (concat (map (stage_constraints u s) xs)) = []"
  by (induction xs) (auto simp: stage_constraints_def filter_empty_conv)

lemma constraints_place_units:
  "length (constraints (place_units u s n mi)) + pass_throughs mi s =
     length (constraints mi) + n * length (unit_constraints u) + n + 1"
proof -
  have "length (filter (\<lambda>c. c \<noteq> Pass_through s) (constraints mi)) + pass_throughs mi s =
      length (constraints mi)"
    unfolding pass_throughs_def
    using sum_length_filter_compl[of "\<lambda>c. c = Pass_through s" "constraints mi"] by simp
  then show ?thesis
    by (simp add: place_units_def length_stage_constraints)
qed

lemma pass_throughs_place_units:
  "s' \<noteq> s \<Longrightarrow> pass_throughs (place_units u s n mi) s' = pass_throughs mi s'"
  by (auto simp: pass_throughs_def place_units_def filter_stage_constraints filter_empty_conv
      intro!: arg_cong[where f = length] filter_cong)

lemma place_selection_counts:
  assumes "admissible ph sites sel" and "distinct (map fst sel)"
  shows "\<exists>mi'. place_selection ph sites sel mi = Inr mi' \<and>
     length (variables mi') =
       length (variables mi) +
       (\<Sum>(s, count)\<leftarrow>sel. nat count * length (unit_variables (unit ph))) \<and>
     length (constraints mi') + (\<Sum>(s, count)\<leftarrow>sel. pass_throughs mi s) =
       length (constraints mi) +
       (\<Sum>(s, count)\<leftarrow>sel. nat count * length (unit_constraints (unit ph)) + nat count + 1)"
  using assms
proof (induction sel arbitrary: mi)
  case Nil
  then show ?case by simp
next
  case (Cons e sel)
  obtain s count where e: "e = (s, count)" by (cases e)
  let ?mi1 = "place_units (unit ph) s (nat count) mi"
  from Cons.prems e have ok: "s \<in> set sites" "count \<le> int (max_stages (unit ph))"
    and adm: "admissible ph sites sel" and dist: "distinct (map fst sel)"
    and fresh: "s \<notin> fst ` set sel"
    by (auto simp: admissible_def)
  from Cons.IH[OF adm dist, of ?mi1] obtain mi' where
    r: "place_selection ph sites sel ?mi1 = Inr mi'" and
    v: "length (variables mi') = length (variables ?mi1) +
          (\<Sum>(s, count)\<leftarrow>sel. nat count * length (unit_variables (unit ph)))" and
    c: "length (constraints mi') + (\<Sum>(s, count)\<leftarrow>sel. pass_throughs ?mi1 s) =
          length (constraints ?mi1) +
          (\<Sum>(s, count)\<leftarrow>sel. nat count * length (unit_constraints (unit ph)) + nat count + 1)"
    by blast
  have same: "(\<Sum>(s, count)\<leftarrow>sel. pass_throughs ?mi1 s) = (\<Sum>(s, count)\<leftarrow>sel. pass_throughs mi s)"
  proof (rule arg_cong[where f = sum_list], rule map_cong[OF refl])
    fix x assume "x \<in> set sel"
    with fresh have "fst x \<noteq> s" by auto
    then show "(case x of (s, count) \<Rightarrow> pass_throughs ?mi1 s) =
               (case x of (s, count) \<Rightarrow> pass_throughs mi s)"
      by (cases x) (simp add: pass_throughs_place_units)
  qed
  have res: "place_selection ph sites (e # sel) mi = Inr mi'"
    using ok r e by simp
  have "length (variables mi') =
       length (variables mi) +
       (\<Sum>(s, count)\<leftarrow>e # sel. nat count * length (unit_variables (unit ph)))"
    using v e by (simp add: variables_place_units)
  moreover have "length (constraints mi') + (\<Sum>(s, count)\<leftarrow>e # sel. pass_throughs mi s) =
       length (constraints mi) +
       (\<Sum>(s, count)\<leftarrow>e # sel. nat count * length (unit_constraints (unit ph)) + nat count + 1)"
    using c same constraints_place_units[of "unit ph" s "nat count" mi] e by simp
  ultimately show ?case using res by blast
qed

lemma admissible_set:
  "set a = set b \<Longrightarrow> admissible ph sites a = admissible ph sites b"
  by (simp add: admissible_def list_all_iff)

lemma sum_list_same_mapping:
  assumes "same_mapping a b"
  shows "sum_list (map f a) = sum_list (map (f :: site \<times> int \<Rightarrow> nat) b)"
proof -
  from assms have "distinct a" "distinct b" "set a = set b"
    by (auto simp: same_mapping_def distinct_map)
  then show ?thesis
    by (metis sum.distinct_set_conv_list)
qed

lemma build_counts:
  assumes "admissible ph (network_sites ph t) sel" and "distinct (map fst sel)"
  shows "\<exists>mi'. build ph t sel = Inr mi' \<and>
     length (variables mi') =
       length (variables (network_model ph t)) +
       (\<Sum>(s, count)\<leftarrow>sel. nat count * length (unit_variables (unit ph))) \<and>
     length (constraints mi') + (\<Sum>(s, count)\<leftarrow>sel. pass_throughs (network_model ph t) s) =
       length (constraints (network_model ph t)) +
       (\<Sum>(s, count)\<leftarrow>sel. nat count * length (unit_constraints (unit ph)) + nat count + 1)"
  unfolding build_def by (rule place_selection_counts[OF assms])

lemma build_same_counts:
  assumes "same_mapping selection selection'"
  shows "same_counts (build ph t selection) (build ph t selection')"
proof (cases "admissible ph (network_sites ph t) selection")
  case False
  from assms have "set selection = set selection'"
    by (simp add: same_mapping_def)
  from admissible_set[OF this, of ph "network_sites ph t"] False
  have "\<not> admissible ph (network_sites ph t) selection'"
    by simp
  with False show ?thesis
    by (simp add: same_counts_def build_def place_selection_not_admissible)
next
  case True
  from assms have d: "distinct (map fst selection)" "distinct (map fst selection')"
    and eq: "set selection = set selection'"
    by (simp_all add: same_mapping_def)
  from admissible_set[OF eq, of ph "network_sites ph t"] True
  have True': "admissible ph (network_sites ph t) selection'"
    by simp
  from build_counts[OF True d(1)] obtain a where
    a: "build ph t selection = Inr a" and
    va: "length (variables a) =
       length (variables (network_model ph t)) +
       (\<Sum>(s, count)\<leftarrow>selection. nat count * length (unit_variables (unit ph)))" and
    ca: "length (constraints a) +
       (\<Sum>(s, count)\<leftarrow>selection. pass_throughs (network_model ph t) s) =
       length (constraints (network_model ph t)) +
       (\<Sum>(s, count)\<leftarrow>selection.
          nat count * length (unit_constraints (unit ph)) + nat count + 1)"
    by blast
  from build_counts[OF True' d(2)] obtain b where
    b: "build ph t selection' = Inr b" and
    vb: "length (variables b) =
       length (variables (network_model ph t)) +
       (\<Sum>(s, count)\<leftarrow>selection'. nat count * length (unit_variables (unit ph)))" and
    cb: "length (constraints b) +
       (\<Sum>(s, count)\<leftarrow>selection'. pass_throughs (network_model ph t) s) =
       length (constraints (network_model ph t)) +
       (\<Sum>(s, count)\<leftarrow>selection'.
          nat count * length (unit_constraints (unit ph)) + nat count + 1)"
    by blast
  have e1: "(\<Sum>(s, count)\<leftarrow>selection. nat count * length (unit_variables (unit ph))) =
      (\<Sum>(s, count)\<leftarrow>selection'. nat count * length (unit_variables (unit ph)))"
    by (rule sum_list_same_mapping[OF assms])
  have e2: "(\<Sum>(s, count)\<leftarrow>selection. pass_throughs (network_model ph t) s) =
      (\<Sum>(s, count)\<leftarrow>selection'. pass_throughs (network_model ph t) s)"
    by (rule sum_list_same_mapping[OF assms])
  have e3: "(\<Sum>(s, count)\<leftarrow>selection.
          nat count * length (unit_constraints (unit ph)) + nat count + 1) =
      (\<Sum>(s, count)\<leftarrow>selection'.
          nat count * length (unit_constraints (unit ph)) + nat count + 1)"
    by (rule sum_list_same_mapping[OF assms])
  have "length (variables a) = length (variables b)"
    using va vb unfolding e1 by linarith
  moreover have "length (constraints a) = length (constraints b)"
    using ca cb unfolding e2 e3 by linarith
  ultimately show ?thesis
    using a b by (simp add: same_counts_def)
qed

text \<open>
  C3. \<open>build\<close> is a function of the table and the selection alone, and the counts it
  produces do not depend on the order in which an equal selection lists its entries:
  two calls with equal tables and equal selections (the same entries, as mappings)
  either both fail with the same error or both return models with the same number of
  variables and the same number of constraints.
\<close>

theorem build_deterministic:
  assumes "t = t'" and "same_mapping selection selection'"
  shows "same_counts (build ph t selection) (build ph t' selection')"
  unfolding assms(1)[symmetric] using assms(2) by (rule build_same_counts)

theorem build_deterministic_witness:
  "same_mapping [(''R01_IN'', 1), (''R02_IN'', 2)] [(''R02_IN'', 2), (''R01_IN'', 1)]
   \<and> same_counts (build demo_physics demo_table [(''R01_IN'', 1), (''R02_IN'', 2)])
                  (build demo_physics demo_table [(''R02_IN'', 2), (''R01_IN'', 1)])"
proof -
  have h: "same_mapping [(''R01_IN'', 1), (''R02_IN'', 2)] [(''R02_IN'', 2), (''R01_IN'', 1)]"
    by (auto simp: same_mapping_def)
  show ?thesis using h build_deterministic[OF refl h] by simp
qed

text \<open>
  C4. If the selection names a site that is not in the network's site set, \<open>build\<close>
  fails with ConfigurationError, wherever that entry stands in the selection; the
  result carries no model, so the units placed for earlier entries are not returned.
\<close>

theorem build_rejects_absent_site:
  assumes "(s, count) \<in> set selection" and "s \<notin> set (network_sites ph t)"
  shows "build ph t selection = Inl ConfigurationError
       \<and> (\<forall>mi. build ph t selection \<noteq> Inr mi)"
  using place_selection_absent[OF assms] by (simp add: build_def)

theorem build_rejects_absent_site_witness:
  "(''R09'', 1) \<in> set [(''R01_IN'', 1), (''R09'', 1)]
   \<and> ''R09'' \<notin> set (network_sites demo_physics demo_table)
   \<and> build demo_physics demo_table [(''R01_IN'', 1), (''R09'', 1)] = Inl ConfigurationError"
proof -
  have m: "(''R09'', 1::int) \<in> set [(''R01_IN'', 1), (''R09'', 1)]"
    by simp
  have a: "''R09'' \<notin> set (network_sites demo_physics demo_table)"
    by (simp add: network_sites_def demo_physics_def demo_table_def)
  show ?thesis using m a build_rejects_absent_site[OF m a] by simp
qed

end
